theory Spec2Isabelle
  imports Main
begin

section \<open>The test harness of build.py\<close>

text \<open>
  The development follows \<^verbatim>\<open>build.py\<close>: the helper \<^verbatim>\<open>unescape\<close>, the
  command-line helpers \<^verbatim>\<open>getArg\<close> and \<^verbatim>\<open>getFlag\<close>, the classes
  \<^verbatim>\<open>ReadEvents\<close> and \<^verbatim>\<open>RunTestsJVM\<close>, and the part of \<^verbatim>\<open>main\<close> that
  starts the workers and reports the outcome.

  Python text is modelled by \<^typ>\<open>string\<close>. An exception is a value of the type
  \<open>error\<close>, and a function that may raise returns \<open>error + 'a\<close> with \<open>Inl\<close> for the
  exception.
\<close>

subsection \<open>Python strings\<close>

definition newline :: char where
  "newline = CHR 0x0A"

definition tab :: char where
  "tab = CHR 0x09"

text \<open>
  \<^verbatim>\<open>s.replace(old, new)\<close>: the occurrences of \<open>old\<close> are found from the left and do
  not overlap. For an empty \<open>old\<close> Python puts \<open>new\<close> before every character and at
  the end.
\<close>

fun str_replace :: "string \<Rightarrow> string \<Rightarrow> string \<Rightarrow> string" where
  "str_replace [] old new = (if old = [] then new else [])"
| "str_replace (c # cs) old new =
     (if old = [] then new @ c # str_replace cs old new
      else if take (length old) (c # cs) = old
        then new @ str_replace (drop (length old) (c # cs)) old new
      else c # str_replace cs old new)"

text \<open>\<^verbatim>\<open>sub in s\<close> for two strings: \<open>sub\<close> occurs in \<open>s\<close> as a contiguous part.\<close>

fun occurs_in :: "string \<Rightarrow> string \<Rightarrow> bool" where
  "occurs_in sub [] = (sub = [])"
| "occurs_in sub (c # cs) = (take (length sub) (c # cs) = sub \<or> occurs_in sub cs)"

subsection \<open>unescape\<close>

text \<open>
  \<^verbatim>\<open>
  def unescape(s):
    return s.replace('%0A', '\n').replace('%09', '\t')
  \<close>
\<close>

definition unescape :: "string \<Rightarrow> string" where
  "unescape s = str_replace (str_replace s ''%0A'' [newline]) ''%09'' [tab]"

subsection \<open>More of Python's strings and lists\<close>

datatype error =
    AttributeError
  | IndexError
  | KeyError
  | TypeError
  | JSONDecodeError
  | UnicodeDecodeError
  | RuntimeError string

definition dquote :: char where
  "dquote = CHR 0x22"

text \<open>\<^verbatim>\<open>s.find(sub)\<close>: the lowest index where \<open>sub\<close> starts in \<open>s\<close>, or \<open>-1\<close>.\<close>

fun find_from :: "string \<Rightarrow> string \<Rightarrow> nat \<Rightarrow> int" where
  "find_from sub [] i = (if sub = [] then int i else - 1)"
| "find_from sub (c # cs) i =
     (if take (length sub) (c # cs) = sub then int i else find_from sub cs (Suc i))"

definition str_find :: "string \<Rightarrow> string \<Rightarrow> int" where
  "str_find s sub = find_from sub s 0"

definition endswith :: "string \<Rightarrow> string \<Rightarrow> bool" where
  "endswith s suf = (length suf \<le> length s \<and> drop (length s - length suf) s = suf)"

text \<open>
  \<^verbatim>\<open>s.rstrip()\<close> removes the trailing white space. Of the characters below 256
  Python counts as white space 9 to 13, 28 to 32, 133 and 160.
\<close>

definition isspace :: "char \<Rightarrow> bool" where
  "isspace c = (let n = (of_char c :: nat) in
     (9 \<le> n \<and> n \<le> 13) \<or> (28 \<le> n \<and> n \<le> 32) \<or> n = 133 \<or> n = 160)"

definition rstrip :: "string \<Rightarrow> string" where
  "rstrip s = rev (dropWhile isspace (rev s))"

text \<open>\<^verbatim>\<open>sep.join(xs)\<close>\<close>

fun join :: "string \<Rightarrow> string list \<Rightarrow> string" where
  "join sep [] = []"
| "join sep [x] = x"
| "join sep (x # y # ys) = x @ sep @ join sep (y # ys)"

text \<open>
  \<^verbatim>\<open>s[i:j]\<close>: a negative bound counts from the end, and both bounds are cut to
  the range of \<open>s\<close>.
\<close>

definition slice_bound :: "nat \<Rightarrow> int \<Rightarrow> nat" where
  "slice_bound n k = (if k < 0 then nat (max 0 (k + int n)) else min (nat k) n)"

definition slice :: "string \<Rightarrow> int \<Rightarrow> int \<Rightarrow> string" where
  "slice s i j =
     (let a = slice_bound (length s) i; b = slice_bound (length s) j
      in take (b - a) (drop a s))"

text \<open>\<^verbatim>\<open>xs[i]\<close> on a list, for an index that is not negative.\<close>

definition list_get :: "'a list \<Rightarrow> nat \<Rightarrow> error + 'a" where
  "list_get xs i = (if i < length xs then Inr (xs ! i) else Inl IndexError)"

text \<open>\<^verbatim>\<open>str(n)\<close> and \<^verbatim>\<open>'%d' % n\<close> for an integer.\<close>

definition digit :: "nat \<Rightarrow> char" where
  "digit d = ''0123456789'' ! d"

fun str_nat :: "nat \<Rightarrow> string" where
  "str_nat n =
     (if n < 10 then [digit n] else str_nat (n div 10) @ [digit (n mod 10)])"

definition str_int :: "int \<Rightarrow> string" where
  "str_int i = (if i < 0 then CHR ''-'' # str_nat (nat (- i)) else str_nat (nat i))"

text \<open>Sequencing of two steps of which the first may raise.\<close>

definition andthen :: "error + 'a \<Rightarrow> ('a \<Rightarrow> error + 'b) \<Rightarrow> error + 'b" where
  "andthen r f = (case r of Inl e \<Rightarrow> Inl e | Inr x \<Rightarrow> f x)"

subsection \<open>The values that json.loads returns\<close>

text \<open>
  An object is the list of its keys and values; \<open>JNum\<close> stands for a number, which
  the harness never looks into.
\<close>

datatype json =
    JNull
  | JBool bool
  | JNum int
  | JStr string
  | JArr "json list"
  | JObj "(string \<times> json) list"

text \<open>
  \<^verbatim>\<open>v[i]\<close> for an integer \<open>i\<close> that is not negative: an element of a list, a
  character of a string; the keys of a decoded object are strings, so an object has
  no such key; the other values cannot be indexed.
\<close>

fun getitem_int :: "json \<Rightarrow> nat \<Rightarrow> error + json" where
  "getitem_int (JArr xs) i = list_get xs i"
| "getitem_int (JStr s) i = (if i < length s then Inr (JStr [s ! i]) else Inl IndexError)"
| "getitem_int (JObj kvs) i = Inl KeyError"
| "getitem_int v i = Inl TypeError"

text \<open>\<^verbatim>\<open>v[k]\<close> for a string \<open>k\<close>: only an object has such keys.\<close>

fun getitem_key :: "json \<Rightarrow> string \<Rightarrow> error + json" where
  "getitem_key (JObj kvs) k = (case map_of kvs k of None \<Rightarrow> Inl KeyError | Some v \<Rightarrow> Inr v)"
| "getitem_key v k = Inl TypeError"

text \<open>\<^verbatim>\<open>k in v\<close> for a string \<open>k\<close>.\<close>

fun contains_key :: "string \<Rightarrow> json \<Rightarrow> error + bool" where
  "contains_key k (JObj kvs) = Inr (map_of kvs k \<noteq> None)"
| "contains_key k (JStr s) = Inr (occurs_in k s)"
| "contains_key k (JArr xs) = Inr (JStr k \<in> set xs)"
| "contains_key k v = Inl TypeError"

text \<open>A method of \<^verbatim>\<open>str\<close> called on a decoded value: only a string has it.\<close>

fun as_str :: "json \<Rightarrow> error + string" where
  "as_str (JStr s) = Inr s"
| "as_str v = Inl AttributeError"

subsection \<open>getArg and getFlag\<close>

text \<open>
  \<^verbatim>\<open>
  def getArg(option):
    if option in sys.argv:
      i = sys.argv.indexOf(option)
      if i + 2 > len(sys.argv):
        raise RuntimeError('command line option %s requires an argument' % option)
      value = sys.argv[i+1]
      del sys.argv[i:i+2]
      return value
    else:
      return None
  \<close>
  \<^verbatim>\<open>sys.argv\<close> is a list, and a Python list has the method \<^verbatim>\<open>index\<close> but no
  attribute \<^verbatim>\<open>indexOf\<close>: looking the attribute up raises AttributeError, for
  every list and every argument.
\<close>

definition list_indexOf :: "string list \<Rightarrow> string \<Rightarrow> error + nat" where
  "list_indexOf xs x = Inl AttributeError"

definition getArg :: "string \<Rightarrow> string list \<Rightarrow> error + (string option \<times> string list)" where
  "getArg option argv =
     (if option \<in> set argv then
        andthen (list_indexOf argv option) (\<lambda>i.
          if i + 2 > length argv
          then Inl (RuntimeError (''command line option '' @ option @ '' requires an argument''))
          else Inr (Some (argv ! (i + 1)), take i argv @ drop (i + 2) argv))
      else Inr (None, argv))"

text \<open>
  \<^verbatim>\<open>
  def getFlag(option):
    if option in sys.argv:
      sys.argv.remove(option)
      return True
    else:
      return False
  \<close>
\<close>

definition getFlag :: "string \<Rightarrow> string list \<Rightarrow> bool \<times> string list" where
  "getFlag option argv =
     (if option \<in> set argv then (True, remove1 option argv) else (False, argv))"

subsection \<open>The worker RunTestsJVM and the command line of its child\<close>

text \<open>
  The fields that \<^verbatim>\<open>__init__\<close> sets. The queue \<^verbatim>\<open>jobs\<close> is shared by the
  workers and is not a field here: a worker sees it through what \<^verbatim>\<open>jobs.get()\<close>
  returns.
\<close>

record RunTestsJVM =
  id' :: int
  classPath :: "string list"
  verbose :: bool
  seed :: "string option"
  testMethod :: "string option"
  testCount :: nat
  suiteCount :: nat
  failCount :: nat
  doPrintOutput :: bool

definition TEST_HEAP :: string where
  "TEST_HEAP = ''512m''"

text \<open>\<^verbatim>\<open>eventsFile = 'build/test/%d.events' % self.id\<close>\<close>

definition eventsFile :: "RunTestsJVM \<Rightarrow> string" where
  "eventsFile jvm = ''build/test/'' @ str_int (id' jvm) @ ''.events''"

text \<open>The list \<^verbatim>\<open>cmd\<close> that \<^verbatim>\<open>run\<close> builds and hands to \<^verbatim>\<open>subprocess.Popen\<close>.\<close>

definition run_cmd :: "RunTestsJVM \<Rightarrow> string list" where
  "run_cmd jvm =
     [''java'', ''-Xmx'' @ TEST_HEAP, ''-cp'', join '':'' (classPath jvm)]
     @ (if verbose jvm then [''-Dtests.verbose=true''] else [])
     @ [''-Djava.util.logging.config=lib/logging.properties'', ''-DtempDir=build/temp'']
     @ (case seed jvm of None \<Rightarrow> [] | Some sd \<Rightarrow> [''-Dtests.seed='' @ sd])
     @ (case testMethod jvm of None \<Rightarrow> [] | Some m \<Rightarrow> [''-Dtests.method='' @ m])
     @ (if verbose jvm then [''-Dtests.verbose=true''] else [])
     @ [''-ea'', ''-esa'', ''com.carrotsearch.ant.tasks.junit4.slave.SlaveMainSafe'']
     @ [''-eventsfile'', eventsFile jvm]
     @ [''-flush'', ''-stdin'']"

subsection \<open>main: the options, the workers, the outcome\<close>

text \<open>
  The target \<^verbatim>\<open>test\<close> first reads its options:
  \<^verbatim>\<open>
  seed = getArg('-seed')
  verbose = getFlag('-verbose')
  \<close>
\<close>

definition test_options :: "string list \<Rightarrow> error + (string option \<times> bool \<times> string list)" where
  "test_options argv =
     andthen (getArg ''-seed'' argv) (\<lambda>(sd, argv1).
       case getFlag ''-verbose'' argv1 of (vb, argv2) \<Rightarrow> Inr (sd, vb, argv2))"

text \<open>
  With the test classes found, \<^verbatim>\<open>main\<close> refuses an empty list and starts the
  workers:
  \<^verbatim>\<open>
  if len(testClasses) == 0:
    if testSubString is None:
      raise RuntimeError('no tests found (wtf?)')
    else:
      raise RuntimeError('no tests match substring "%s"' % testSubString)
  jvmCount = min(multiprocessing.cpu_count(), len(testClasses))
  if testSubString is not None:
    printOutput = True
  else:
    printOutput = False
  jvms = []
  for i in range(jvmCount):
    jvm = RunTestsJVM(0, jobs, testCP, verbose, None, printOutput, testMethod=testMethod)
    jvm.start()
    jvms.append(jvm)
  \<close>
  The arguments are the values of the local variables of \<^verbatim>\<open>main\<close> at this
  point; \<open>sd\<close> is the variable \<^verbatim>\<open>seed\<close>.
\<close>

definition start_jvms ::
  "nat \<Rightarrow> string list \<Rightarrow> string list \<Rightarrow> string option \<Rightarrow> bool \<Rightarrow> string option \<Rightarrow> string option
   \<Rightarrow> error + RunTestsJVM list" where
  "start_jvms cpu_count testClasses testCP sd vb testSubString tm =
     (if length testClasses = 0 then
        (case testSubString of
           None \<Rightarrow> Inl (RuntimeError ''no tests found (wtf?)'')
         | Some sub \<Rightarrow>
             Inl (RuntimeError (''no tests match substring '' @ [dquote] @ sub @ [dquote])))
      else
        (let jvmCount = min cpu_count (length testClasses);
             printOutput = (testSubString \<noteq> None)
         in Inr (map (\<lambda>i. \<lparr>id' = 0, classPath = testCP, verbose = vb, seed = None,
                           testMethod = tm, testCount = 0, suiteCount = 0, failCount = 0,
                           doPrintOutput = printOutput\<rparr>) [0..<jvmCount])))"

text \<open>
  After the workers are joined their counters are added up and the outcome is
  printed:
  \<^verbatim>\<open>
  if failCount > 0:
    print('\nFAILURE [%d of %d test cases in %d suites failed in %.1f sec]' % ...)
    sys.exit(1)
  elif testCount == 0:
    print('\nFAILURE: no tests ran!')
  else:
    print('\nSUCCESS [%d test cases in %d suites in %.1f sec]' % ...)
    sys.exit(0)
  \<close>
  The printed line is kept by its kind and its counts; the elapsed time is left out.
  The second component is the argument of \<^verbatim>\<open>sys.exit\<close>, \<open>None\<close> where \<^verbatim>\<open>main\<close>
  does not call it and goes on with its next target.
\<close>

datatype report =
    FAILURE nat nat nat
  | NO_TESTS_RAN
  | SUCCESS nat nat

definition final_report :: "nat \<Rightarrow> nat \<Rightarrow> nat \<Rightarrow> report \<times> int option" where
  "final_report fc tc sc =
     (if fc > 0 then (FAILURE fc tc sc, Some 1)
      else if tc = 0 then (NO_TESTS_RAN, None)
      else (SUCCESS tc sc, Some 0))"

definition finish :: "RunTestsJVM list \<Rightarrow> report \<times> int option" where
  "finish jvms =
     final_report (sum_list (map failCount jvms)) (sum_list (map testCount jvms))
       (sum_list (map suiteCount jvms))"

subsection \<open>ReadEvents: reading the events file while the child writes it\<close>

text \<open>
  The events file grows while the worker polls it, and the child may exit meanwhile.
  A \<open>snapshot\<close> is what one round of the loop of \<^verbatim>\<open>readline\<close> sees: the bytes of
  the file when \<^verbatim>\<open>self.f.readline()\<close> runs, and the result of
  \<^verbatim>\<open>self.process.poll()\<close> (\<open>None\<close> while the child runs, else its exit status).
  The argument of \<open>readline\<close> is the list of the snapshots of the rounds to come.
  When the list is used up the call has not returned: the result is \<open>None\<close>.
\<close>

record snapshot =
  content :: string
  status :: "int option"

text \<open>
  \<^verbatim>\<open>self.f.readline()\<close> on the binary file at offset \<open>pos\<close>: the bytes up to
  and with the next newline, or up to the end of the file when there is none.
\<close>

definition file_readline :: "string \<Rightarrow> nat \<Rightarrow> string" where
  "file_readline bytes pos =
     (let rest = drop pos bytes; line = takeWhile (\<lambda>c. c \<noteq> newline) rest
      in if length line < length rest then line @ [newline] else line)"

text \<open>
  \<^verbatim>\<open>
  def readline(self):
    while True:
      pos = self.f.tell()
      l = self.f.readline().decode('utf-8')
      if l == '' or not l.endswith('\n'):
        time.sleep(.01)
        p = self.process.poll()
        if p is not None:
          raise RuntimeError('process exited with status %s' % str(p))
        self.f.seek(pos)
      else:
        return l
  \<close>
  The decoder of UTF-8 is the parameter \<open>decode\<close>, from bytes to text; it may
  raise. A returned line comes with the offset after it and the snapshots left.
\<close>

fun readline ::
  "(string \<Rightarrow> error + string) \<Rightarrow> snapshot list \<Rightarrow> nat
   \<Rightarrow> (error + (string \<times> nat \<times> snapshot list)) option" where
  "readline decode [] pos = None"
| "readline decode (w # ws) pos =
     (let raw = file_readline (content w) pos in
      case decode raw of
        Inl e \<Rightarrow> Some (Inl e)
      | Inr l \<Rightarrow>
          if l = [] \<or> \<not> endswith l [newline] then
            (case status w of
               Some p \<Rightarrow>
                 Some (Inl (RuntimeError (''process exited with status '' @ str_int p)))
             | None \<Rightarrow> readline decode ws pos)
          else Some (Inr (l, pos + length raw, ws)))"

text \<open>
  The callers of \<^verbatim>\<open>readline\<close> see a sequence of results, one for each call:
  \<open>Inr l\<close> for a returned line and \<open>Inl e\<close> for a raised error. The loops below
  take this sequence as the list \<open>ev\<close>; at the end of the list the next call has not
  returned, and neither has the loop.

  \<^verbatim>\<open>
  def waitIdle(self):
    lines = []
    while True:
      l = self.readline()
      if l.find('"IDLE",') != -1:
        return lines
      else:
        lines.append(l)
  \<close>
\<close>

definition IDLE_mark :: string where
  "IDLE_mark = [dquote] @ ''IDLE'' @ [dquote] @ '',''"

fun waitIdle_loop ::
  "(error + string) list \<Rightarrow> string list
   \<Rightarrow> (error + (string list \<times> (error + string) list)) option" where
  "waitIdle_loop [] lines = None"
| "waitIdle_loop (Inl e # ev) lines = Some (Inl e)"
| "waitIdle_loop (Inr l # ev) lines =
     (if str_find l IDLE_mark \<noteq> - 1 then Some (Inr (lines, ev))
      else waitIdle_loop ev (lines @ [l]))"

definition waitIdle ::
  "(error + string) list \<Rightarrow> (error + (string list \<times> (error + string) list)) option" where
  "waitIdle ev = waitIdle_loop ev []"

subsection \<open>RunTestsJVM.run: the events of one job\<close>

text \<open>
  What \<^verbatim>\<open>message\<close> prints is either a text or the report of a failure. The
  report is kept by its parts: \<^verbatim>\<open>job[25:]\<close>, \<^verbatim>\<open>testCaseName\<close>, the pending output
  that is joined into it, the message of the failure when it has one, and the trace.
\<close>

datatype out =
    Text string
  | Failed string "string option" "string list" "json option" json

text \<open>
  The state of a worker inside \<^verbatim>\<open>run\<close>: the object \<^verbatim>\<open>self\<close>, what the worker
  has printed, what it has written to the input of its child, and the local
  variables of the loop over the jobs.
\<close>

record state =
  self :: RunTestsJVM
  console :: "out list"
  stdin :: "string list"
  pendingOutput :: "string list"
  didFail :: bool
  testCaseFailed :: bool
  testCaseName :: "string option"

definition message :: "out \<Rightarrow> state \<Rightarrow> state" where
  "message s st = st\<lparr>console := console st @ [s]\<rparr>"

text \<open>
  The body of \<^verbatim>\<open>if lines[1] == '[':\<close> after the frame is decoded, up to the
  \<^verbatim>\<open>break\<close>. The three branches that change the state are \<open>append_output\<close>,
  \<open>report_failure\<close> and \<open>test_started\<close>; \<open>handle_event\<close> is the dispatch on
  \<^verbatim>\<open>event[0]\<close>, and its result says whether the loop over the lines ends.
  \<^verbatim>\<open>
  if event[0] in ('APPEND_STDOUT', 'APPEND_STDERR'):
    chunk = unescape(event[1]['chunk'])
    if testCaseFailed or self.doPrintOutput:
      message(chunk)
    else:
      pendingOutput.append(chunk)
  elif event[0] in ('TEST_FAILURE', 'SUITE_FAILURE'):
    details = event[1]['failure']
    s = '\n!! %s.%s FAILED !!:\n\n' % (job[25:], testCaseName)
    s += ''.join(pendingOutput)
    if 'message' in details:
      s += '\n%s\n' % details['message']
    s += '\n%s' % details['trace']
    message(s)
    testCaseFailed = True
    if not didFail:
      self.failCount += 1
      didFail = True
  elif event[0] == 'TEST_STARTED':
    self.testCount += 1
    testCaseFailed = False
    testCaseName = event[1]['description']
    i = testCaseName.find('#')
    j = testCaseName.find('(')
    testCaseName = testCaseName[i+1:j]
  elif event[0] == 'IDLE':
    break
  \<close>
\<close>

definition append_output :: "json \<Rightarrow> state \<Rightarrow> error + state" where
  "append_output event st =
     andthen (getitem_int event 1) (\<lambda>payload.
     andthen (getitem_key payload ''chunk'') (\<lambda>c.
     andthen (as_str c) (\<lambda>escaped.
       let chunk = unescape escaped in
       if testCaseFailed st \<or> doPrintOutput (self st)
       then Inr (message (Text chunk) st)
       else Inr (st\<lparr>pendingOutput := pendingOutput st @ [chunk]\<rparr>))))"

definition report_failure :: "string \<Rightarrow> json \<Rightarrow> state \<Rightarrow> error + state" where
  "report_failure job event st =
     andthen (getitem_int event 1) (\<lambda>payload.
     andthen (getitem_key payload ''failure'') (\<lambda>details.
     andthen (contains_key ''message'' details) (\<lambda>has.
     andthen (if has then andthen (getitem_key details ''message'') (\<lambda>m. Inr (Some m))
              else Inr None) (\<lambda>msg.
     andthen (getitem_key details ''trace'') (\<lambda>trace.
       let st1 = message (Failed (drop 25 job) (testCaseName st) (pendingOutput st)
                            msg trace) st;
           st2 = st1\<lparr>testCaseFailed := True\<rparr>
       in if \<not> didFail st2
          then Inr (st2\<lparr>self := (self st2)\<lparr>failCount := failCount (self st2) + 1\<rparr>,
                       didFail := True\<rparr>)
          else Inr st2)))))"

definition test_started :: "json \<Rightarrow> state \<Rightarrow> error + state" where
  "test_started event st =
     (let st1 = st\<lparr>self := (self st)\<lparr>testCount := testCount (self st) + 1\<rparr>,
                   testCaseFailed := False\<rparr>
      in andthen (getitem_int event 1) (\<lambda>payload.
         andthen (getitem_key payload ''description'') (\<lambda>d.
         andthen (as_str d) (\<lambda>name.
           let i = str_find name ''#''; j = str_find name ''(''
           in Inr (st1\<lparr>testCaseName := Some (slice name (i + 1) j)\<rparr>)))))"

definition handle_event :: "string \<Rightarrow> json \<Rightarrow> state \<Rightarrow> error + (bool \<times> state)" where
  "handle_event job event st =
     andthen (getitem_int event 0) (\<lambda>kind.
       if kind = JStr ''APPEND_STDOUT'' \<or> kind = JStr ''APPEND_STDERR'' then
         andthen (append_output event st) (\<lambda>st1. Inr (False, st1))
       else if kind = JStr ''TEST_FAILURE'' \<or> kind = JStr ''SUITE_FAILURE'' then
         andthen (report_failure job event st) (\<lambda>st1. Inr (False, st1))
       else if kind = JStr ''TEST_STARTED'' then
         andthen (test_started event st) (\<lambda>st1. Inr (False, st1))
       else if kind = JStr ''IDLE'' then Inr (True, st)
       else Inr (False, st))"

text \<open>
  The loop over the lines of one job. \<open>loads\<close> is \<^verbatim>\<open>json.loads\<close>, \<open>lines\<close> the
  lines gathered for the frame that is being read.
  \<^verbatim>\<open>
  while True:
    l = events.readline()
    l = l.rstrip()
    if l == ']':
      lines.append(l)
      if lines[1] == '[':
        event = json.loads('\n'.join(lines))
        ...
      lines = []
    else:
      lines.append(l)
  \<close>
\<close>

fun run_job_loop ::
  "(string \<Rightarrow> error + json) \<Rightarrow> string \<Rightarrow> (error + string) list \<Rightarrow> string list \<Rightarrow> state
   \<Rightarrow> (error + (state \<times> (error + string) list)) option" where
  "run_job_loop loads job [] lines st = None"
| "run_job_loop loads job (Inl e # ev) lines st = Some (Inl e)"
| "run_job_loop loads job (Inr l0 # ev) lines st =
     (let l = rstrip l0 in
      if l = '']'' then
        (let lines1 = lines @ [l] in
         case list_get lines1 1 of
           Inl e \<Rightarrow> Some (Inl e)
         | Inr second \<Rightarrow>
             if second = ''['' then
               (case loads (join [newline] lines1) of
                  Inl e \<Rightarrow> Some (Inl e)
                | Inr event \<Rightarrow>
                    (case handle_event job event st of
                       Inl e \<Rightarrow> Some (Inl e)
                     | Inr (stop, st1) \<Rightarrow>
                         if stop then Some (Inr (st1, ev))
                         else run_job_loop loads job ev [] st1))
             else run_job_loop loads job ev [] st)
      else run_job_loop loads job ev (lines @ [l]) st)"

text \<open>
  One round of the loop over the jobs, for a job that is not the sentinel:
  \<^verbatim>\<open>
  self.suiteCount += 1
  message('%s...' % job[25:])
  p.stdin.write((job + '\n').encode('utf-8'))
  p.stdin.flush()
  lines = []
  pendingOutput = []
  didFail = False
  testCaseFailed = False
  testCaseName = None
  \<close>
  and then the loop over the lines.
\<close>

definition run_job ::
  "(string \<Rightarrow> error + json) \<Rightarrow> string \<Rightarrow> (error + string) list \<Rightarrow> state
   \<Rightarrow> (error + (state \<times> (error + string) list)) option" where
  "run_job loads job ev st =
     (let st1 = st\<lparr>self := (self st)\<lparr>suiteCount := suiteCount (self st) + 1\<rparr>\<rparr>;
          st2 = message (Text (drop 25 job @ ''...'')) st1;
          st3 = st2\<lparr>stdin := stdin st2 @ [job @ [newline]]\<rparr>;
          st4 = st3\<lparr>pendingOutput := [], didFail := False, testCaseFailed := False,
                    testCaseName := None\<rparr>
      in run_job_loop loads job ev [] st4)"










subsection \<open>Example data\<close>

text \<open>
  The data of the example runs. On bytes below 128 decoding UTF-8 changes nothing,
  and a byte from 128 on that is not part of a complete character makes the decoder
  raise. \<open>decode_ascii\<close> raises on every byte from 128 on: it is the decoder on
  files whose bytes are below 128, and on files that have such bytes and then end
  inside a character.
\<close>

definition decode_ascii :: "string \<Rightarrow> error + string" where
  "decode_ascii bytes =
     (if list_all (\<lambda>c. (of_char c :: nat) < 128) bytes then Inr bytes
      else Inl UnicodeDecodeError)"

text \<open>
  Frames as the child writes them, an empty line first, and the values that
  \<^verbatim>\<open>json.loads\<close> returns for them.
\<close>

definition quoted :: "string \<Rightarrow> string" where
  "quoted s = [dquote] @ s @ [dquote]"








definition output_event :: json where
  "output_event = JArr [JStr ''APPEND_STDOUT'', JObj [(''chunk'', JStr ''indexing%0A'')]]"

definition idle_frame :: "string list" where
  "idle_frame = ['''', ''['', ''  '' @ quoted ''IDLE'' @ '','', ''  {}'', '']'']"



text \<open>The results of \<^verbatim>\<open>readline\<close> when the file holds the given lines.\<close>

definition as_lines :: "string list \<Rightarrow> (error + string) list" where
  "as_lines ls = map (\<lambda>l. Inr (l @ [newline])) ls"

definition example_jvm :: "bool \<Rightarrow> bool \<Rightarrow> RunTestsJVM" where
  "example_jvm vb po =
     \<lparr>id' = 0, classPath = [''build/classes/test''], verbose = vb, seed = None,
      testMethod = None, testCount = 0, suiteCount = 0, failCount = 0, doPrintOutput = po\<rparr>"

definition example_state :: "bool \<Rightarrow> bool \<Rightarrow> state" where
  "example_state vb po =
     \<lparr>self = example_jvm vb po, console = [], stdin = [], pendingOutput = [],
      didFail = False, testCaseFailed = False, testCaseName = None\<rparr>"




section \<open>Properties\<close>

subsection \<open>unescape\<close>

lemma str_replace_absent:
  "old \<noteq> [] \<Longrightarrow> \<not> occurs_in old s \<Longrightarrow> str_replace s old new = s"
  by (induction s) auto

text \<open>
  A match of \<open>p\<close> cannot begin inside \<open>a\<close> and end inside a following \<open>q\<close> when
  the first character of \<open>q\<close> occurs in \<open>p\<close> at its head only.
\<close>

lemma take_straddle:
  assumes "p \<noteq> []" "q \<noteq> []" "hd q \<notin> set (tl p)" "a \<noteq> []"
    and "take (length p) a \<noteq> p"
  shows "take (length p) (a @ q @ b) \<noteq> p"
proof
  assume eq: "take (length p) (a @ q @ b) = p"
  show False
  proof (cases "length p \<le> length a")
    case True
    then show ?thesis using eq assms(5) by simp
  next
    case False
    then have lt: "length a < length p" by simp
    have "take (length p) (a @ q @ b) ! length a = (a @ q @ b) ! length a"
      using lt by (rule nth_take)
    then have "p ! length a = (a @ q @ b) ! length a"
      using eq by simp
    also have "\<dots> = hd q"
      using assms(2) by (simp add: nth_append hd_conv_nth)
    finally have "p ! length a = hd q" .
    moreover have "p ! length a \<in> set (tl p)"
    proof -
      obtain n where n: "length a = Suc n" using assms(4) by (cases a) auto
      have "tl p ! n = p ! Suc n" using assms(1) by (cases p) auto
      moreover have "n < length (tl p)" using lt n by simp
      then have "tl p ! n \<in> set (tl p)" by (rule nth_mem)
      ultimately show ?thesis using n by simp
    qed
    ultimately show ?thesis using assms(3) by simp
  qed
qed

lemma str_replace_append:
  assumes "p \<noteq> []" "q \<noteq> []" "hd q \<notin> set (tl p)"
  shows "str_replace (a @ q @ b) p n = str_replace a p n @ str_replace (q @ b) p n"
  using assms
proof (induction a p n rule: str_replace.induct)
  case (1 old new)
  then show ?case by simp
next
  case (2 c cs old new)
  show ?case
  proof (cases "take (length old) (c # cs) = old")
    case True
    have "length (take (length old) (c # cs)) = length old"
      using True by simp
    then have len: "length old \<le> length (c # cs)"
      by simp
    have "take (length old) ((c # cs) @ q @ b) =
          take (length old) (c # cs) @ take (length old - length (c # cs)) (q @ b)"
      by (rule take_append)
    then have t: "take (length old) ((c # cs) @ q @ b) = old"
      using True len by simp
    have "drop (length old) ((c # cs) @ q @ b) =
          drop (length old) (c # cs) @ drop (length old - length (c # cs)) (q @ b)"
      by (rule drop_append)
    then have d: "drop (length old) ((c # cs) @ q @ b) = drop (length old) (c # cs) @ q @ b"
      using len by simp
    have "str_replace ((c # cs) @ q @ b) old new =
          new @ str_replace (drop (length old) ((c # cs) @ q @ b)) old new"
      using t "2.prems"(1) by simp
    also have "\<dots> =
          new @ str_replace (drop (length old) (c # cs)) old new @ str_replace (q @ b) old new"
      unfolding d using "2.IH"(2) [OF "2.prems"(1) True] "2.prems" by simp
    also have "\<dots> = str_replace (c # cs) old new @ str_replace (q @ b) old new"
      using True "2.prems"(1) by simp
    finally show ?thesis .
  next
    case False
    have nt: "take (length old) ((c # cs) @ q @ b) \<noteq> old"
      using take_straddle [OF "2.prems"(1) "2.prems"(2) "2.prems"(3) _ False] by simp
    have "str_replace ((c # cs) @ q @ b) old new = c # str_replace (cs @ q @ b) old new"
      using nt "2.prems"(1) by simp
    also have "\<dots> = c # str_replace cs old new @ str_replace (q @ b) old new"
      using "2.IH"(3) [OF "2.prems"(1) False] "2.prems" by simp
    also have "\<dots> = str_replace (c # cs) old new @ str_replace (q @ b) old new"
      using False "2.prems"(1) by simp
    finally show ?thesis .
  qed
qed

lemma unescape_newline: "unescape (a @ ''%0A'' @ b) = unescape a @ [newline] @ unescape b"
proof -
  have 1: "str_replace (a @ ''%0A'' @ b) ''%0A'' [newline]
        = str_replace a ''%0A'' [newline] @ [newline] @ str_replace b ''%0A'' [newline]"
    by (subst str_replace_append) simp_all
  have 2: "str_replace (x @ [newline] @ y) ''%09'' [tab]
        = str_replace x ''%09'' [tab] @ [newline] @ str_replace y ''%09'' [tab]" for x y
    by (subst str_replace_append) (simp_all add: newline_def)
  show ?thesis by (simp only: unescape_def 1 2)
qed

lemma unescape_tab: "unescape (a @ ''%09'' @ b) = unescape a @ [tab] @ unescape b"
proof -
  have 1: "str_replace (a @ ''%09'' @ b) ''%0A'' [newline]
        = str_replace a ''%0A'' [newline] @ ''%09'' @ str_replace b ''%0A'' [newline]"
    by (subst str_replace_append) simp_all
  have 2: "str_replace (x @ ''%09'' @ y) ''%09'' [tab]
        = str_replace x ''%09'' [tab] @ [tab] @ str_replace y ''%09'' [tab]" for x y
    by (subst str_replace_append) simp_all
  show ?thesis by (simp only: unescape_def 1 2)
qed

lemma unescape_absent:
  "\<not> occurs_in ''%0A'' s \<Longrightarrow> \<not> occurs_in ''%09'' s \<Longrightarrow> unescape s = s"
  by (simp add: unescape_def str_replace_absent)

text \<open>
  C10. \<open>unescape\<close> maps \<^verbatim>\<open>a%0Ab%09c\<close> to \<open>a\<close>, newline, \<open>b\<close>, tab, \<open>c\<close>. It
  replaces every \<^verbatim>\<open>%0A\<close> by a newline and every \<^verbatim>\<open>%09\<close> by a tab: wherever
  an escape stands in the input, the output is the unescaped text before it, the
  control character, and the unescaped text after it. A string in which neither
  escape occurs is returned as it is, so that unescaping it twice is the same as
  once.
\<close>

theorem unescape_replaces_escapes:
  "unescape ''a%0Ab%09c'' = [CHR ''a'', newline, CHR ''b'', tab, CHR ''c'']
   \<and> unescape (a @ ''%0A'' @ b) = unescape a @ [newline] @ unescape b
   \<and> unescape (a @ ''%09'' @ b) = unescape a @ [tab] @ unescape b
   \<and> (\<not> occurs_in ''%0A'' s \<and> \<not> occurs_in ''%09'' s
        \<longrightarrow> unescape s = s \<and> unescape (unescape s) = unescape s)"
proof -
  have "unescape ''a%0Ab%09c'' = [CHR ''a'', newline, CHR ''b'', tab, CHR ''c'']"
    by (simp add: unescape_def)
  then show ?thesis
    using unescape_newline unescape_tab unescape_absent by simp
qed

theorem unescape_replaces_escapes_witness:
  "\<not> occurs_in ''%0A'' ''50% of 09'' \<and> \<not> occurs_in ''%09'' ''50% of 09''
   \<and> unescape ''50% of 09'' = ''50% of 09''
   \<and> unescape (unescape ''50% of 09'') = unescape ''50% of 09''
   \<and> unescape (''x'' @ ''%0A'' @ ''y'') = unescape ''x'' @ [newline] @ unescape ''y''"
  using unescape_replaces_escapes [of "''x''" "''y''" "''50% of 09''"]
  by simp

subsection \<open>The outcome of a run\<close>

lemma final_report_cases:
  "(fc = 0 \<and> 0 < tc \<longrightarrow> final_report fc tc sc = (SUCCESS tc sc, Some 0))
   \<and> (0 < fc \<longrightarrow> final_report fc tc sc = (FAILURE fc tc sc, Some 1))
   \<and> (fc = 0 \<and> tc = 0 \<longrightarrow> final_report fc tc sc = (NO_TESTS_RAN, None))"
  by (simp add: final_report_def)

text \<open>
  C2. When the workers have been joined and their counters added up, the process
  exits with code 0 if no failure was counted and at least one test ran, and with
  code 1 if a failure was counted. If no failure was counted and no test ran, the
  line \<^verbatim>\<open>FAILURE: no tests ran!\<close> is printed, which is neither of the other two
  reports, and \<^verbatim>\<open>sys.exit\<close> is not called.
\<close>

theorem finish_exit_code:
  "(sum_list (map failCount jvms) = 0 \<and> 0 < sum_list (map testCount jvms)
      \<longrightarrow> finish jvms =
          (SUCCESS (sum_list (map testCount jvms)) (sum_list (map suiteCount jvms)), Some 0))
   \<and> (0 < sum_list (map failCount jvms)
      \<longrightarrow> finish jvms =
          (FAILURE (sum_list (map failCount jvms)) (sum_list (map testCount jvms))
             (sum_list (map suiteCount jvms)), Some 1))
   \<and> (sum_list (map failCount jvms) = 0 \<and> sum_list (map testCount jvms) = 0
      \<longrightarrow> finish jvms = (NO_TESTS_RAN, None))"
  unfolding finish_def by (rule final_report_cases)

theorem finish_exit_code_witness:
  "finish [\<lparr>id' = 0, classPath = [], verbose = False, seed = None, testMethod = None,
            testCount = 3, suiteCount = 1, failCount = 0, doPrintOutput = False\<rparr>]
     = (SUCCESS 3 1, Some 0)
   \<and> finish [\<lparr>id' = 0, classPath = [], verbose = False, seed = None, testMethod = None,
              testCount = 0, suiteCount = 1, failCount = 1, doPrintOutput = False\<rparr>]
     = (FAILURE 1 0 1, Some 1)
   \<and> finish [\<lparr>id' = 0, classPath = [], verbose = False, seed = None, testMethod = None,
              testCount = 0, suiteCount = 1, failCount = 0, doPrintOutput = False\<rparr>]
     = (NO_TESTS_RAN, None)"
  using
    finish_exit_code [of "[\<lparr>id' = 0, classPath = [], verbose = False, seed = None,
      testMethod = None, testCount = 3, suiteCount = 1, failCount = 0, doPrintOutput = False\<rparr>]"]
    finish_exit_code [of "[\<lparr>id' = 0, classPath = [], verbose = False, seed = None,
      testMethod = None, testCount = 0, suiteCount = 1, failCount = 1, doPrintOutput = False\<rparr>]"]
    finish_exit_code [of "[\<lparr>id' = 0, classPath = [], verbose = False, seed = None,
      testMethod = None, testCount = 0, suiteCount = 1, failCount = 0, doPrintOutput = False\<rparr>]"]
  by simp

text \<open>
  C5. An empty list of test classes is fatal: \<^verbatim>\<open>main\<close> raises before any worker
  starts, with or without a test name fragment. A run in which no test executes is
  not: with one suite run, no failure and no test counted, the line
  \<^verbatim>\<open>FAILURE: no tests ran!\<close> is printed and \<^verbatim>\<open>main\<close> goes on without calling
  \<^verbatim>\<open>sys.exit\<close>, while the two other branches of the same statement both call
  it.
\<close>

theorem no_tests_ran_not_fatal:
  "start_jvms 4 [] [''build/classes/test''] None False None None
     = Inl (RuntimeError ''no tests found (wtf?)'')
   \<and> start_jvms 4 [] [''build/classes/test''] None False (Some ''TestFoo'') None
     = Inl (RuntimeError (''no tests match substring '' @ [dquote] @ ''TestFoo'' @ [dquote]))
   \<and> finish [\<lparr>id' = 0, classPath = [''build/classes/test''], verbose = False, seed = None,
              testMethod = Some ''testNoSuchMethod'', testCount = 0, suiteCount = 1,
              failCount = 0, doPrintOutput = True\<rparr>]
     = (NO_TESTS_RAN, None)"
  by (simp add: start_jvms_def finish_def final_report_def)

subsection \<open>The workers that main starts\<close>

text \<open>
  C1. The events file of a worker is named after its \<^verbatim>\<open>id\<close>, and \<^verbatim>\<open>main\<close>
  gives every worker the \<^verbatim>\<open>id\<close> 0: with two test classes on a machine with two
  processors, the two workers that are started both use
  \<^verbatim>\<open>build/test/0.events\<close>, and both children are told to write it.
\<close>

theorem workers_share_events_file:
  "map eventsFile
     (projr (start_jvms 2 [''org.apache.lucene.server.TestIndexing'',
                           ''org.apache.lucene.server.TestSearch'']
               [''build/classes/test''] None False None None))
     = [''build/test/0.events'', ''build/test/0.events'']
   \<and> map (\<lambda>jvm. drop 9 (run_cmd jvm))
     (projr (start_jvms 2 [''org.apache.lucene.server.TestIndexing'',
                           ''org.apache.lucene.server.TestSearch'']
               [''build/classes/test''] None False None None))
     = [[''-eventsfile'', ''build/test/0.events'', ''-flush'', ''-stdin''],
        [''-eventsfile'', ''build/test/0.events'', ''-flush'', ''-stdin'']]"
  by (simp add: start_jvms_def eventsFile_def run_cmd_def str_int_def digit_def
      TEST_HEAP_def upt_rec)

text \<open>
  C3. With \<^verbatim>\<open>-seed 42\<close> on the command line, \<^verbatim>\<open>getArg\<close> finds the option in
  \<^verbatim>\<open>sys.argv\<close> and then raises AttributeError, so the target \<^verbatim>\<open>test\<close> ends
  there. And whatever the variable \<^verbatim>\<open>seed\<close> holds, \<^verbatim>\<open>main\<close> builds every
  worker with the seed \<open>None\<close>, so that no command line of a child has the flag
  \<^verbatim>\<open>-Dtests.seed=42\<close>.
\<close>

theorem seed_option_not_passed:
  "test_options [''build.py'', ''test'', ''-seed'', ''42''] = Inl AttributeError
   \<and> map seed
       (projr (start_jvms 2 [''org.apache.lucene.server.TestIndexing'',
                             ''org.apache.lucene.server.TestSearch'']
                 [''build/classes/test''] (Some ''42'') False None None))
     = [None, None]
   \<and> map (\<lambda>jvm. ''-Dtests.seed=42'' \<in> set (run_cmd jvm))
       (projr (start_jvms 2 [''org.apache.lucene.server.TestIndexing'',
                             ''org.apache.lucene.server.TestSearch'']
                 [''build/classes/test''] (Some ''42'') False None None))
     = [False, False]"
  by (simp add: test_options_def getArg_def list_indexOf_def andthen_def start_jvms_def
      eventsFile_def run_cmd_def str_int_def digit_def TEST_HEAP_def upt_rec)

subsection \<open>ReadEvents\<close>

text \<open>
  For every decoder: a line that \<^verbatim>\<open>readline\<close> returns ends with a newline and
  is the decoded line that the file holds at the starting offset in one of the
  snapshots; an empty or unfinished line that decodes makes the call read again at
  the same offset while the child runs, and raise RuntimeError with the exit status
  when the child has exited; bytes that do not decode end the call with the error
  of the decoder.
\<close>

lemma readline_returns_complete_line:
  "readline decode ws pos = Some (Inr (l, pos', ws')) \<Longrightarrow>
     endswith l [newline] \<and>
     list_ex (\<lambda>w. decode (file_readline (content w) pos) = Inr l
                \<and> pos' = pos + length (file_readline (content w) pos)) ws"
proof (induction ws)
  case Nil
  then show ?case by simp
next
  case (Cons w ws)
  then show ?case
    by (auto simp: Let_def split: sum.splits if_splits option.splits)
qed

lemma readline_partial:
  assumes "decode (file_readline (content w) pos) = Inr part"
    and "part = [] \<or> \<not> endswith part [newline]"
  shows "readline decode (w # ws) pos =
     (case status w of
        None \<Rightarrow> readline decode ws pos
      | Some p \<Rightarrow> Some (Inl (RuntimeError (''process exited with status '' @ str_int p))))"
  using assms by (auto simp: Let_def split: option.splits)

lemma readline_decode_error:
  "decode (file_readline (content w) pos) = Inl e \<Longrightarrow>
     readline decode (w # ws) pos = Some (Inl e)"
  by (simp add: Let_def)

text \<open>
  C9. The child has written \<^verbatim>\<open>ab\<close> and the first byte, \<^verbatim>\<open>0xC3\<close>, of a
  character of two bytes; the line is not finished. \<^verbatim>\<open>readline\<close> decodes what
  it has read before it looks for the newline, and the decoder raises
  UnicodeDecodeError. The worker does not go back to the offset and read again
  while the child runs, and when the child has exited with status 1 the error that
  is raised does not carry the status.
\<close>

theorem readline_cut_character_raises:
  "readline decode_ascii (\<lparr>content = ''ab'' @ [CHR 0xC3], status = None\<rparr> # ws) 0
     = Some (Inl UnicodeDecodeError)
   \<and> readline decode_ascii (\<lparr>content = ''ab'' @ [CHR 0xC3], status = Some 1\<rparr> # ws) 0
     = Some (Inl UnicodeDecodeError)"
  by (simp add: decode_ascii_def file_readline_def newline_def Let_def)

lemma waitIdle_loop_iff:
  "waitIdle_loop ev acc = Some (Inr (lines, ev')) \<longleftrightarrow>
     (\<exists>ls l. lines = acc @ ls \<and> ev = map Inr ls @ Inr l # ev'
        \<and> str_find l IDLE_mark \<noteq> - 1 \<and> list_all (\<lambda>x. str_find x IDLE_mark = - 1) ls)"
proof (induction ev acc rule: waitIdle_loop.induct)
  case (1 lines)
  then show ?case by simp
next
  case (2 e ev lines)
  then show ?case by (auto simp: Cons_eq_append_conv)
next
  case (3 l ev acc)
  show ?case
  proof (cases "str_find l IDLE_mark \<noteq> - 1")
    case True
    then show ?thesis
      by (auto simp: Cons_eq_append_conv)
  next
    case False
    then show ?thesis
      using 3 by (auto simp: Cons_eq_append_conv)
  qed
qed

text \<open>
  C7 (counterexample). The file holds a frame \<^verbatim>\<open>IDLE\<close>; the third line
  read is the line with the mark, after it the call returns, and the line is not
  in the list returned.
\<close>

theorem waitIdle_omits_IDLE_line:
  "waitIdle (as_lines idle_frame)
     = Some (Inr ([[newline], ''[\<newline>''], as_lines [''  {}'', '']'']))
   \<and> as_lines idle_frame ! 2 = Inr (''  '' @ quoted ''IDLE'' @ '',\<newline>'')
   \<and> ''  '' @ quoted ''IDLE'' @ '',\<newline>'' \<notin> set [[newline], ''[\<newline>'']"
  by code_simp

text \<open>
  C7 (amended). \<open>waitIdle\<close> returns exactly when a line with the mark
  \<^verbatim>\<open>"IDLE",\<close> is read and no call of \<^verbatim>\<open>readline\<close> before it raised. It
  returns the lines read before that line, in order; the line with the mark is not
  among them, and the results that follow it are left for the next reader.
\<close>

theorem waitIdle_returns_lines_before_IDLE:
  "waitIdle ev = Some (Inr (lines, ev')) \<longleftrightarrow>
     (\<exists>l. ev = map Inr lines @ Inr l # ev'
        \<and> str_find l IDLE_mark \<noteq> - 1
        \<and> list_all (\<lambda>x. str_find x IDLE_mark = - 1) lines)"
  by (simp add: waitIdle_def waitIdle_loop_iff)

theorem waitIdle_returns_lines_before_IDLE_witness:
  "waitIdle (as_lines idle_frame)
     = Some (Inr ([[newline], ''[\<newline>''], as_lines [''  {}'', '']'']))
   \<and> (\<exists>l. as_lines idle_frame
          = map Inr [[newline], ''[\<newline>''] @ Inr l # as_lines [''  {}'', '']'']
        \<and> str_find l IDLE_mark \<noteq> - 1
        \<and> list_all (\<lambda>x. str_find x IDLE_mark = - 1) [[newline], ''[\<newline>''])"
proof -
  have r: "waitIdle (as_lines idle_frame)
     = Some (Inr ([[newline], ''[\<newline>''], as_lines [''  {}'', '']'']))"
    by code_simp
  show ?thesis
    using r waitIdle_returns_lines_before_IDLE [of "as_lines idle_frame"
        "[[newline], ''[\<newline>'']" "as_lines [''  {}'', '']'']"]
    by simp
qed

subsection \<open>The events of one job\<close>


text \<open>
  C6 (counterexample). With the verbose flag set and \<^verbatim>\<open>doPrintOutput\<close>
  unset, the chunk of an \<^verbatim>\<open>APPEND_STDOUT\<close> frame is put into the pending output
  and nothing is printed; with the verbose flag unset and \<^verbatim>\<open>doPrintOutput\<close> set,
  the chunk is printed at once. In both runs no test case has failed.
\<close>

theorem verbose_does_not_choose:
  "verbose (self (example_state True False))
   \<and> \<not> testCaseFailed (example_state True False)
   \<and> handle_event ''org.apache.lucene.server.TestIndexing'' output_event
        (example_state True False)
     = Inr (False, (example_state True False)\<lparr>pendingOutput := [''indexing\<newline>'']\<rparr>)
   \<and> console ((example_state True False)\<lparr>pendingOutput := [''indexing\<newline>'']\<rparr>) = []
   \<and> \<not> verbose (self (example_state False True))
   \<and> \<not> testCaseFailed (example_state False True)
   \<and> handle_event ''org.apache.lucene.server.TestIndexing'' output_event
        (example_state False True)
     = Inr (False, (example_state False True)\<lparr>console := [Text ''indexing\<newline>'']\<rparr>)
   \<and> pendingOutput ((example_state False True)\<lparr>console := [Text ''indexing\<newline>'']\<rparr>) = []"
  by (simp add: handle_event_def append_output_def andthen_def output_event_def
      example_state_def example_jvm_def message_def unescape_def list_get_def newline_def)

lemma append_output_choice:
  assumes "kind = ''APPEND_STDOUT'' \<or> kind = ''APPEND_STDERR''"
    and "getitem_key payload ''chunk'' = Inr (JStr escaped)"
    and "\<not> testCaseFailed st"
  shows "handle_event job (JArr (JStr kind # payload # others)) st =
     Inr (False,
       if doPrintOutput (self st)
       then st\<lparr>console := console st @ [Text (unescape escaped)]\<rparr>
       else st\<lparr>pendingOutput := pendingOutput st @ [unescape escaped]\<rparr>)"
  using assms
  by (auto simp: handle_event_def append_output_def andthen_def message_def list_get_def)

lemma start_jvms_flags:
  "start_jvms n classes cp sd vb sub tm = Inr jvms \<Longrightarrow>
     list_all (\<lambda>jvm. doPrintOutput jvm = (sub \<noteq> None) \<and> verbose jvm = vb) jvms"
  by (auto simp: start_jvms_def Let_def list_all_iff split: if_splits option.splits)

text \<open>
  C6 (amended). For a frame \<^verbatim>\<open>APPEND_STDOUT\<close> or \<^verbatim>\<open>APPEND_STDERR\<close> whose
  payload has a string under \<^verbatim>\<open>chunk\<close>, handled while no test case has failed,
  the flag \<^verbatim>\<open>doPrintOutput\<close> of the worker decides: if it is set the unescaped
  chunk is printed at once and the pending output is unchanged, if not the chunk is
  appended to the pending output and nothing is printed. The state \<open>st\<close> is any
  state, so the verbose flag has no part in the choice. In the workers that
  \<^verbatim>\<open>main\<close> starts, \<^verbatim>\<open>doPrintOutput\<close> is set exactly when a test name fragment
  was given, and the verbose flag is the option \<^verbatim>\<open>-verbose\<close>.
\<close>

theorem doPrintOutput_chooses:
  "((kind = ''APPEND_STDOUT'' \<or> kind = ''APPEND_STDERR'')
      \<and> getitem_key payload ''chunk'' = Inr (JStr escaped) \<and> \<not> testCaseFailed st
     \<longrightarrow> handle_event job (JArr (JStr kind # payload # others)) st =
         Inr (False,
           if doPrintOutput (self st)
           then st\<lparr>console := console st @ [Text (unescape escaped)]\<rparr>
           else st\<lparr>pendingOutput := pendingOutput st @ [unescape escaped]\<rparr>))
   \<and> (start_jvms n classes cp sd vb sub tm = Inr jvms
     \<longrightarrow> list_all (\<lambda>jvm. doPrintOutput jvm = (sub \<noteq> None) \<and> verbose jvm = vb) jvms)"
  using append_output_choice [of kind payload escaped st job others]
    start_jvms_flags [of n classes cp sd vb sub tm jvms]
  by blast

theorem doPrintOutput_chooses_witness:
  "handle_event ''org.apache.lucene.server.TestIndexing'' output_event
        (example_state True False)
     = Inr (False, (example_state True False)\<lparr>pendingOutput := [''indexing\<newline>'']\<rparr>)
   \<and> handle_event ''org.apache.lucene.server.TestIndexing'' output_event
        (example_state True True)
     = Inr (False, (example_state True True)\<lparr>console := [Text ''indexing\<newline>'']\<rparr>)
   \<and> start_jvms 1 [''org.apache.lucene.server.TestIndexing''] [''build/classes/test'']
        None True None None = Inr [example_jvm True False]
   \<and> list_all (\<lambda>jvm. doPrintOutput jvm = ((None :: string option) \<noteq> None) \<and> verbose jvm = True)
        [example_jvm True False]"
proof -
  have s: "start_jvms 1 [''org.apache.lucene.server.TestIndexing''] [''build/classes/test'']
        None True None None = Inr [example_jvm True False]"
    by (simp add: start_jvms_def example_jvm_def)
  show ?thesis
    using s
      doPrintOutput_chooses [where kind = "''APPEND_STDOUT''"
        and payload = "JObj [(''chunk'', JStr ''indexing%0A'')]"
        and escaped = "''indexing%0A''" and st = "example_state True False"
        and job = "''org.apache.lucene.server.TestIndexing''" and others = "[]"
        and n = 1 and classes = "[''org.apache.lucene.server.TestIndexing'']"
        and cp = "[''build/classes/test'']" and sd = None and vb = True and sub = None
        and tm = None and jvms = "[example_jvm True False]"]
      doPrintOutput_chooses [where kind = "''APPEND_STDOUT''"
        and payload = "JObj [(''chunk'', JStr ''indexing%0A'')]"
        and escaped = "''indexing%0A''" and st = "example_state True True"
        and job = "''org.apache.lucene.server.TestIndexing''" and others = "[]"
        and n = 0 and classes = "[]" and jvms = "[]"]
    by (simp add: output_event_def example_state_def example_jvm_def unescape_def newline_def)
qed

text \<open>
  C8. The first line that the worker reads for a job is \<^verbatim>\<open>]\<close>: the list
  \<^verbatim>\<open>lines\<close> then has this one element, and \<^verbatim>\<open>lines[1]\<close> raises IndexError,
  whatever follows in the file.
\<close>

theorem bracket_first_raises_IndexError:
  "run_job_loop loads job (Inr '']\<newline>'' # ev) [] st = Some (Inl IndexError)
   \<and> run_job loads job (Inr '']\<newline>'' # ev) st = Some (Inl IndexError)"
  by (simp add: run_job_def rstrip_def isspace_def list_get_def Let_def)





























end
